theory Spec2Isabelle
  imports Complex_Main "HOL-Library.Word" "HOL-Library.Sublist" "HOL-Library.AList"
begin

section \<open>JavaScript values as the frontend receives them\<close>

text \<open>
  The frontend (\<^verbatim>\<open>src/frontend/app.js\<close>) works on values obtained from
  \<^verbatim>\<open>response.json()\<close> and on JavaScript strings. A JavaScript string is a sequence of
  UTF-16 code units: \<^verbatim>\<open>length\<close> and \<^verbatim>\<open>slice\<close> count code units, so a string is a list
  of 16-bit words here. \<open>lit\<close> embeds the ASCII text of a source literal; the emoji of the
  source's literals are written as their surrogate pairs.
\<close>

type_synonym jsstring = "16 word list"

definition lit :: "string \<Rightarrow> jsstring" where
  "lit s = map of_char s"

text \<open>
  A parsed JSON value, plus \<open>Undefined\<close> for what a property read yields on a missing
  key. Numbers are the finite numbers JSON can denote; the program does no arithmetic on
  them. An object is the list of its own properties.
\<close>

datatype jsval =
    Undefined
  | Null
  | Bool bool
  | Num rat
  | Str jsstring
  | Arr "jsval list"
  | Obj "(jsstring \<times> jsval) list"

datatype error = TypeError | SyntaxError | NetworkError

text \<open>
  The built-ins of the host that the program calls and whose results the source does not
  fix: the clock, the locale's date format, number printing, Unicode case mapping outside
  ASCII, the HTML parser behind \<^verbatim>\<open>innerHTML\<close>, and the text of an error's message.
\<close>

record env =
  now :: rat
    \<comment> \<open>\<^verbatim>\<open>Date.now()\<close>\<close>
  dateLocaleString :: "jsval \<Rightarrow> jsstring"
    \<comment> \<open>\<^verbatim>\<open>new Date(v).toLocaleString()\<close> for a primitive \<open>v\<close>\<close>
  numberToString :: "rat \<Rightarrow> jsstring"
    \<comment> \<open>\<^verbatim>\<open>String(n)\<close> for a number\<close>
  unicodeLower :: "jsstring \<Rightarrow> jsstring"
    \<comment> \<open>\<^verbatim>\<open>toLowerCase\<close> on a string with a code unit outside ASCII\<close>
  unicodeUpper :: "jsstring \<Rightarrow> jsstring"
    \<comment> \<open>\<^verbatim>\<open>toUpperCase\<close> on a string with a code unit outside ASCII\<close>
  innerHTMLRoundTrip :: "jsstring \<Rightarrow> jsstring"
    \<comment> \<open>what a detached element's \<^verbatim>\<open>innerHTML\<close> reads back after it was set to the markup\<close>
  errorMessage :: "error \<Rightarrow> jsstring"
    \<comment> \<open>\<^verbatim>\<open>err.message\<close>\<close>


definition bindE :: "error + 'a \<Rightarrow> ('a \<Rightarrow> error + 'b) \<Rightarrow> error + 'b" where
  "bindE m f = (case m of Inl e \<Rightarrow> Inl e | Inr x \<Rightarrow> f x)"

fun collect :: "(error + 'a) list \<Rightarrow> error + 'a list" where
  "collect [] = Inr []"
| "collect (r # rs) = bindE r (\<lambda>x. bindE (collect rs) (\<lambda>xs. Inr (x # xs)))"

fun joinWith :: "jsstring \<Rightarrow> jsstring list \<Rightarrow> jsstring" where
  "joinWith sep [] = []"
| "joinWith sep [x] = x"
| "joinWith sep (x # y # r) = x @ sep @ joinWith sep (y # r)"

fun truthy :: "jsval \<Rightarrow> bool" where
  "truthy Undefined = False"
| "truthy Null = False"
| "truthy (Bool b) = b"
| "truthy (Num n) = (n \<noteq> 0)"
| "truthy (Str s) = (s \<noteq> [])"
| "truthy (Arr xs) = True"
| "truthy (Obj kvs) = True"

fun nullish :: "jsval \<Rightarrow> bool" where
  "nullish Undefined = True"
| "nullish Null = True"
| "nullish v = False"

text \<open>
  \<open>getProp v k\<close> is the read \<^verbatim>\<open>v.k\<close> for the property names this program reads from
  parsed JSON (\<^verbatim>\<open>escalation\<close>, \<^verbatim>\<open>level\<close>, \<^verbatim>\<open>name\<close>, ...): none of them is defined on a
  prototype, so the read yields an object's own property or \<^verbatim>\<open>undefined\<close>, and throws on
  \<^verbatim>\<open>null\<close> and \<^verbatim>\<open>undefined\<close>.
\<close>

fun getProp :: "jsval \<Rightarrow> jsstring \<Rightarrow> error + jsval" where
  "getProp Undefined k = Inl TypeError"
| "getProp Null k = Inl TypeError"
| "getProp (Obj kvs) k = Inr (case map_of kvs k of None \<Rightarrow> Undefined | Some v \<Rightarrow> v)"
| "getProp v k = Inr Undefined"

text \<open>The optional read \<^verbatim>\<open>v?.k\<close>.\<close>

definition getPropOpt :: "jsval \<Rightarrow> jsstring \<Rightarrow> jsval" where
  "getPropOpt v k = (case getProp v k of Inl e \<Rightarrow> Undefined | Inr x \<Rightarrow> x)"

text \<open>
  \<open>toStr\<close> is the string conversion of a template literal's substitution. An object
  prints as \<^verbatim>\<open>[object Object]\<close> unless it has an own property \<^verbatim>\<open>toString\<close>, which parsed
  JSON never makes callable: the conversion then throws. An array joins its elements with
  commas, \<^verbatim>\<open>null\<close> and \<^verbatim>\<open>undefined\<close> elements printing as nothing.
\<close>

fun toStr :: "env \<Rightarrow> jsval \<Rightarrow> error + jsstring" where
  "toStr env Undefined = Inr (lit ''undefined'')"
| "toStr env Null = Inr (lit ''null'')"
| "toStr env (Bool b) = Inr (if b then lit ''true'' else lit ''false'')"
| "toStr env (Num n) = Inr (numberToString env n)"
| "toStr env (Str s) = Inr s"
| "toStr env (Arr xs) =
     bindE (collect (map (\<lambda>x. if nullish x then Inr [] else toStr env x) xs))
       (\<lambda>ss. Inr (joinWith (lit '','') ss))"
| "toStr env (Obj kvs) =
     (if map_of kvs (lit ''toString'') \<noteq> None then Inl TypeError
      else Inr (lit ''[object Object]''))"

text \<open>
  Case mapping is the per-unit ASCII mapping on a string of ASCII code units, as
  ECMAScript fixes it there; on any other string it is the host's.
\<close>

definition isAscii :: "jsstring \<Rightarrow> bool" where
  "isAscii s = list_all (\<lambda>c. c < 0x80) s"

definition asciiLower :: "16 word \<Rightarrow> 16 word" where
  "asciiLower c = (if 0x41 \<le> c \<and> c \<le> 0x5A then c + 0x20 else c)"

definition asciiUpper :: "16 word \<Rightarrow> 16 word" where
  "asciiUpper c = (if 0x61 \<le> c \<and> c \<le> 0x7A then c - 0x20 else c)"

definition toLowerCase :: "env \<Rightarrow> jsstring \<Rightarrow> jsstring" where
  "toLowerCase env s = (if isAscii s then map asciiLower s else unicodeLower env s)"

definition toUpperCase :: "env \<Rightarrow> jsstring \<Rightarrow> jsstring" where
  "toUpperCase env s = (if isAscii s then map asciiUpper s else unicodeUpper env s)"

text \<open>The method call \<^verbatim>\<open>v.toUpperCase()\<close>: only a string has the method.\<close>

fun callToUpperCase :: "env \<Rightarrow> jsval \<Rightarrow> error + jsstring" where
  "callToUpperCase env (Str s) = Inr (toUpperCase env s)"
| "callToUpperCase env v = Inl TypeError"

text \<open>The optional call \<^verbatim>\<open>v?.toLowerCase()\<close>: \<^verbatim>\<open>undefined\<close> on \<^verbatim>\<open>null\<close> and \<^verbatim>\<open>undefined\<close>.\<close>

fun callToLowerCaseOpt :: "env \<Rightarrow> jsval \<Rightarrow> error + jsval" where
  "callToLowerCaseOpt env Undefined = Inr Undefined"
| "callToLowerCaseOpt env Null = Inr Undefined"
| "callToLowerCaseOpt env (Str s) = Inr (Str (toLowerCase env s))"
| "callToLowerCaseOpt env v = Inl TypeError"

text \<open>
  \<^verbatim>\<open>new Date(v).toLocaleString()\<close>: an object or array argument is first converted to
  its string, which may throw; the rest is the host's.
\<close>

fun newDateLocaleString :: "env \<Rightarrow> jsval \<Rightarrow> error + jsstring" where
  "newDateLocaleString env (Arr xs) =
     bindE (toStr env (Arr xs)) (\<lambda>s. Inr (dateLocaleString env (Str s)))"
| "newDateLocaleString env (Obj kvs) =
     bindE (toStr env (Obj kvs)) (\<lambda>s. Inr (dateLocaleString env (Str s)))"
| "newDateLocaleString env v = Inr (dateLocaleString env v)"

text \<open>\<^verbatim>\<open>xs.map(f)\<close> on the value \<open>v\<close>: only an array has the method.\<close>

fun callMap :: "jsval \<Rightarrow> (jsval \<Rightarrow> error + jsstring) \<Rightarrow> error + jsstring list" where
  "callMap (Arr xs) f = collect (map f xs)"
| "callMap v f = Inl TypeError"

section \<open>The renderer: \<^verbatim>\<open>buildResultHTML\<close>\<close>

definition escalation :: "env \<Rightarrow> jsval \<Rightarrow> error + jsstring" where
  \<open>escalation env data =
     bindE (getProp data (lit ''escalation'')) (\<lambda>e.
       if truthy e then
         bindE (getProp e (lit ''level'')) (\<lambda>level.
         bindE (toStr env level) (\<lambda>levelStr.
         bindE (callToUpperCase env level) (\<lambda>levelUpper.
         bindE (getProp e (lit ''message'')) (\<lambda>message.
         bindE (toStr env message) (\<lambda>messageStr.
           Inr (lit ''<div class="alert '' @ levelStr @ lit ''">\<newline>        ''
                @ [0xD83D, 0xDEA8] @ lit '' <b>'' @ levelUpper @ lit ''</b>: '' @ messageStr
                @ lit ''\<newline>      </div>''))))))
       else Inr [])\<close>

definition conditionBlock :: "env \<Rightarrow> jsval \<Rightarrow> error + jsstring" where
  \<open>conditionBlock env c =
     bindE (getProp c (lit ''name'')) (\<lambda>name.
     bindE (toStr env name) (\<lambda>nameStr.
     bindE (getProp c (lit ''confidence'')) (\<lambda>confidence.
     bindE (callToLowerCaseOpt env confidence) (\<lambda>lowered.
     bindE (toStr env lowered) (\<lambda>classStr.
     bindE (toStr env confidence) (\<lambda>confidenceStr.
     bindE (getProp c (lit ''rationale'')) (\<lambda>rationale.
     bindE (toStr env rationale) (\<lambda>rationaleStr.
       Inr (lit ''\<newline>      <div class="condition">\<newline>        <h3>'' @ nameStr
            @ lit ''</h3>\<newline>        <div class="confidence-bar '' @ classStr
            @ lit ''"><div></div></div>\<newline>        <p><b>Confidence:</b> ''
            @ confidenceStr @ lit ''</p>\<newline>        <p>'' @ rationaleStr
            @ lit ''</p>\<newline>      </div>'')))))))))\<close>

definition orEmpty :: "jsval \<Rightarrow> jsval" where
  \<comment> \<open>\<^verbatim>\<open>v || []\<close>\<close>
  "orEmpty v = (if truthy v then v else Arr [])"

definition conditions :: "env \<Rightarrow> jsval \<Rightarrow> error + jsstring" where
  "conditions env data =
     bindE (getProp data (lit ''probable_conditions'')) (\<lambda>pc.
     bindE (callMap (orEmpty pc) (conditionBlock env)) (\<lambda>blocks.
       Inr (concat blocks)))"

definition stepItem :: "env \<Rightarrow> jsval \<Rightarrow> error + jsstring" where
  "stepItem env s = bindE (toStr env s) (\<lambda>t. Inr (lit ''<li>'' @ t @ lit ''</li>''))"

definition nextSteps :: "env \<Rightarrow> jsval \<Rightarrow> error + jsstring" where
  "nextSteps env data =
     bindE (getProp data (lit ''next_steps'')) (\<lambda>ns.
     bindE (callMap (orEmpty ns) (stepItem env)) (\<lambda>items.
       Inr (concat items)))"

definition modelName :: "jsval \<Rightarrow> error + jsval" where
  \<comment> \<open>\<^verbatim>\<open>data.metadata?.model || "local"\<close>\<close>
  "modelName data =
     bindE (getProp data (lit ''metadata'')) (\<lambda>metadata.
       let m = getPropOpt metadata (lit ''model'')
       in Inr (if truthy m then m else Str (lit ''local'')))"

definition footerTime :: "env \<Rightarrow> jsval \<Rightarrow> error + jsval" where
  \<comment> \<open>\<^verbatim>\<open>data.metadata?.timestamp || Date.now()\<close>\<close>
  "footerTime env data =
     bindE (getProp data (lit ''metadata'')) (\<lambda>metadata.
       let t = getPropOpt metadata (lit ''timestamp'')
       in Inr (if truthy t then t else Num (now env)))"

definition buildResultHTML :: "env \<Rightarrow> jsval \<Rightarrow> error + jsstring" where
  \<open>buildResultHTML env data =
     bindE (escalation env data) (\<lambda>escalationStr.
     bindE (conditions env data) (\<lambda>conditionsStr.
     bindE (nextSteps env data) (\<lambda>nextStepsStr.
     bindE (getProp data (lit ''disclaimer'')) (\<lambda>disclaimer.
     bindE (toStr env disclaimer) (\<lambda>disclaimerStr.
     bindE (modelName data) (\<lambda>model.
     bindE (toStr env model) (\<lambda>modelStr.
     bindE (footerTime env data) (\<lambda>time.
     bindE (newDateLocaleString env time) (\<lambda>timeStr.
       Inr (lit ''\<newline>    <div class="result-card">\<newline>      <p class="disclaimer">''
            @ disclaimerStr @ lit ''</p>\<newline>      '' @ escalationStr
            @ lit ''\<newline>      <h2>'' @ [0xD83E, 0xDE7A]
            @ lit '' Probable Conditions</h2>\<newline>      '' @ conditionsStr
            @ lit ''\<newline>      <h2>'' @ [0xD83E, 0xDDED]
            @ lit '' Recommended Next Steps</h2>\<newline>      <ul>'' @ nextStepsStr
            @ lit ''</ul>\<newline>      <div class="meta">\<newline>        <small><b>Model:</b> ''
            @ modelStr @ lit ''</small> |\<newline>        <small>'' @ timeStr
            @ lit ''</small>\<newline>      </div>\<newline>    </div>''))))))))))\<close>

section \<open>The page and the typing effect: \<^verbatim>\<open>typeResult\<close>\<close>

text \<open>
  One interval started by \<^verbatim>\<open>typeResult\<close>: the variables its callback closes over.
  \<open>tempDiv\<close> is the markup last assigned to the detached element's \<^verbatim>\<open>innerHTML\<close>.
\<close>

record timer =
  html :: jsstring
  i :: nat
  tempDiv :: jsstring

datatype analyzeState = Idle | AwaitFetch | AwaitJson

text \<open>
  The part of the page the handlers below write: the markup last assigned to
  \<^verbatim>\<open>resultEl.innerHTML\<close>, the live intervals by their ids, the analyze button, where the
  submit handler is suspended, and how many times \<^verbatim>\<open>loadHistory\<close> was started (the
  sidebar list it fills is a separate element).
\<close>

record page =
  resultEl :: jsstring
  timers :: "(nat \<times> timer) list"
  nextTimerId :: nat
  btnDisabled :: bool
  btnText :: jsstring
  analyze :: analyzeState
  historyLoads :: nat

definition typeResult :: "env \<Rightarrow> jsval \<Rightarrow> page \<Rightarrow> error + page" where
  "typeResult env data p =
     bindE (buildResultHTML env data) (\<lambda>h.
       Inr (p\<lparr>resultEl := [],
              timers := (nextTimerId p, \<lparr>html = h, i = 0, tempDiv = []\<rparr>) # timers p,
              nextTimerId := Suc (nextTimerId p)\<rparr>))"

text \<open>
  One firing of the interval \<open>k\<close>: the callback of \<^verbatim>\<open>setInterval\<close>. An interval that was
  cleared does not fire.
\<close>

definition tick :: "env \<Rightarrow> nat \<Rightarrow> page \<Rightarrow> page" where
  "tick env k p =
     (case map_of (timers p) k of
        None \<Rightarrow> p
      | Some t \<Rightarrow>
          let shown = take (i t) (html t);
              t' = t\<lparr>tempDiv := shown, i := Suc (i t)\<rparr>;
              p' = p\<lparr>resultEl := innerHTMLRoundTrip env shown\<rparr>
          in if length (html t') \<le> i t'
             then p'\<lparr>timers := AList.delete k (timers p')\<rparr>
             else p'\<lparr>timers := AList.update k t' (timers p')\<rparr>)"



function reveals :: "env \<Rightarrow> nat \<Rightarrow> page \<Rightarrow> jsstring list" where
  "reveals env k p =
     (case map_of (timers p) k of
        None \<Rightarrow> []
      | Some t \<Rightarrow> take (i t) (html t) # reveals env k (tick env k p))"
  by pat_completeness auto

termination reveals
proof (relation "measure (\<lambda>(env, k, p). case map_of (timers p) k of
                     None \<Rightarrow> 0 | Some t \<Rightarrow> Suc (length (html t) - i t))")
  show "wf (measure (\<lambda>(env, k, p). case map_of (timers p) k of
                     None \<Rightarrow> 0 | Some t \<Rightarrow> Suc (length (html t) - i t)))"
    by simp
next
  fix env :: env and k and p :: page and t
  assume "map_of (timers p) k = Some t"
  then show "((env, k, tick env k p), (env, k, p))
             \<in> measure (\<lambda>(env, k, p). case map_of (timers p) k of
                     None \<Rightarrow> 0 | Some t \<Rightarrow> Suc (length (html t) - i t))"
    by (auto simp add: tick_def Let_def delete_conv' update_conv' split: option.splits)
qed

section \<open>The handlers\<close>

definition errorMarkup :: "env \<Rightarrow> error \<Rightarrow> jsstring" where
  "errorMarkup env e =
     lit ''<p class='' @ [0x27] @ lit ''error'' @ [0x27] @ lit ''>'' @ [0x274C] @ lit '' ''
     @ errorMessage env e @ lit ''</p>''"

definition loadingMarkup :: jsstring where
  "loadingMarkup =
     lit ''<p class='' @ [0x27] @ lit ''loading'' @ [0x27] @ lit ''>'' @ [0x23F3]
     @ lit '' Analyzing your symptoms...</p>''"

definition noSavedMarkup :: jsstring where
  "noSavedMarkup =
     lit ''<p class='' @ [0x27] @ lit ''error'' @ [0x27] @ lit ''>'' @ [0x274C]
     @ lit '' No saved response found.</p>''"

text \<open>
  The submit handler of \<^verbatim>\<open>symptom-form\<close>, cut at its two \<^verbatim>\<open>await\<close>s: up to the
  \<^verbatim>\<open>fetch\<close>, from the settled \<^verbatim>\<open>fetch\<close> to \<^verbatim>\<open>response.json()\<close>, and from the settled
  \<^verbatim>\<open>json()\<close> to the end. \<open>analyzeFailed\<close> is the \<^verbatim>\<open>catch\<close> block followed by the
  \<^verbatim>\<open>finally\<close> block.
\<close>

definition submitStart :: "page \<Rightarrow> page" where
  "submitStart p =
     p\<lparr>btnDisabled := True, btnText := lit ''Analyzing...'', resultEl := loadingMarkup,
       analyze := AwaitFetch\<rparr>"

definition analyzeFinally :: "page \<Rightarrow> page" where
  "analyzeFinally p = p\<lparr>btnDisabled := False, btnText := lit ''Analyze'', analyze := Idle\<rparr>"

definition analyzeFailed :: "env \<Rightarrow> error \<Rightarrow> page \<Rightarrow> page" where
  "analyzeFailed env e p = analyzeFinally (p\<lparr>resultEl := errorMarkup env e\<rparr>)"

definition submitFetchSettled :: "env \<Rightarrow> error + unit \<Rightarrow> page \<Rightarrow> page" where
  "submitFetchSettled env r p =
     (case r of Inl e \<Rightarrow> analyzeFailed env e p | Inr u \<Rightarrow> p\<lparr>analyze := AwaitJson\<rparr>)"

definition submitJsonSettled :: "env \<Rightarrow> error + jsval \<Rightarrow> page \<Rightarrow> page" where
  "submitJsonSettled env r p =
     (case bindE r (\<lambda>data. typeResult env data p) of
        Inl e \<Rightarrow> analyzeFailed env e p
      | Inr p' \<Rightarrow> analyzeFinally (p'\<lparr>historyLoads := Suc (historyLoads p')\<rparr>))"

text \<open>
  Strict equality \<^verbatim>\<open>===\<close> between values of two different parses: primitives compare by
  value, and an object or array of one parse is never the object of another.
\<close>

fun strictEq :: "jsval \<Rightarrow> jsval \<Rightarrow> bool" where
  "strictEq Undefined Undefined = True"
| "strictEq Null Null = True"
| "strictEq (Bool a) (Bool b) = (a = b)"
| "strictEq (Num a) (Num b) = (a = b)"
| "strictEq (Str a) (Str b) = (a = b)"
| "strictEq v w = False"

text \<open>\<^verbatim>\<open>xs.find(f)\<close> on the value \<open>v\<close>: only an array has the method.\<close>

fun findFirst :: "(jsval \<Rightarrow> error + bool) \<Rightarrow> jsval list \<Rightarrow> error + jsval" where
  "findFirst f [] = Inr Undefined"
| "findFirst f (x # xs) = bindE (f x) (\<lambda>b. if b then Inr x else findFirst f xs)"

fun callFind :: "jsval \<Rightarrow> (jsval \<Rightarrow> error + bool) \<Rightarrow> error + jsval" where
  "callFind (Arr xs) f = findFirst f xs"
| "callFind v f = Inl TypeError"

text \<open>
  \<^verbatim>\<open>loadResultById\<close> from the point where both of its \<^verbatim>\<open>await\<close>s have settled (it writes
  nothing before): \<open>r\<close> is the parsed reply of the history endpoint, or what the
  \<^verbatim>\<open>fetch\<close> or \<^verbatim>\<open>json()\<close> was rejected with.
\<close>

definition loadResultById :: "env \<Rightarrow> jsval \<Rightarrow> error + jsval \<Rightarrow> page \<Rightarrow> page" where
  "loadResultById env queryId r p =
     (case
        bindE r (\<lambda>data.
        bindE (getProp data (lit ''history'')) (\<lambda>history.
        bindE (callFind history
                 (\<lambda>r. bindE (getProp r (lit ''query_id'')) (\<lambda>q. Inr (strictEq q queryId))))
          (\<lambda>record.
             if \<not> truthy record then Inr (p\<lparr>resultEl := noSavedMarkup\<rparr>)
             else
               bindE (getProp record (lit ''model_response'')) (\<lambda>response.
                 if \<not> truthy response then Inr (p\<lparr>resultEl := noSavedMarkup\<rparr>)
                 else typeResult env response p))))
      of
        Inl e \<Rightarrow> p\<lparr>resultEl := errorMarkup env e\<rparr>
      | Inr p' \<Rightarrow> p')"

text \<open>
  What can happen to the page. The browser dispatches no submit event from a disabled
  submit control; a settled promise resumes the handler that awaits it.
\<close>

datatype event =
    Submit
  | FetchSettled "error + unit"
  | JsonSettled "error + jsval"
  | Tick nat
  | ResultLoaded jsval "error + jsval"

fun handle :: "env \<Rightarrow> page \<Rightarrow> event \<Rightarrow> page" where
  "handle env p Submit = (if btnDisabled p then p else submitStart p)"
| "handle env p (FetchSettled r) =
     (if analyze p = AwaitFetch then submitFetchSettled env r p else p)"
| "handle env p (JsonSettled r) =
     (if analyze p = AwaitJson then submitJsonSettled env r p else p)"
| "handle env p (Tick k) = tick env k p"
| "handle env p (ResultLoaded queryId r) = loadResultById env queryId r p"

definition run :: "env \<Rightarrow> page \<Rightarrow> event list \<Rightarrow> page" where
  "run env p evs = foldl (handle env) p evs"

section \<open>The history sidebar: \<^verbatim>\<open>loadHistory\<close>\<close>

text \<open>
  The text of one sidebar entry, \<^verbatim>\<open>li.textContent\<close>, for a summary whose \<^verbatim>\<open>symptoms\<close>
  is the text the form posted.
\<close>

definition previewText :: "jsstring \<Rightarrow> jsstring" where
  "previewText symptoms =
     (if length symptoms > 50 then take 50 symptoms @ lit ''...'' else symptoms)"

section \<open>A host and records for the examples\<close>

text \<open>
  \<open>env0\<close> is a host to evaluate the definitions on. It answers as a browser (en-US, UTC)
  does on what the examples give it: the clock at the epoch; the three instants the
  examples use printed as dates; natural numbers in decimal; the messages of the three
  kinds of error; and markup read back from \<^verbatim>\<open>innerHTML\<close> as the parser and the
  serialiser leave it, which is unchanged for text and for complete markup in serialised
  form, with a bare \<open>&\<close> of a text written \<open>&amp;\<close>, and with an unfinished final
  \<^verbatim>\<open></div\<close> finished.
\<close>

fun escapeAmp :: "jsstring \<Rightarrow> jsstring" where
  "escapeAmp [] = []"
| "escapeAmp (c # s) = (if c = 0x26 then lit ''&amp;'' else [c]) @ escapeAmp s"

definition finishEndTag :: "jsstring \<Rightarrow> jsstring" where
  "finishEndTag s = (if suffix (lit ''</div'') s then s @ lit ''>'' else s)"

fun digits :: "nat \<Rightarrow> jsstring" where
  "digits n = (if n < 10 then [0x30 + of_nat n] else digits (n div 10) @ [0x30 + of_nat (n mod 10)])"

declare digits.simps [simp del]

definition env0 :: env where
  "env0 = \<lparr>
     now = 0,
     dateLocaleString = (\<lambda>v.
       if v = Num 0 then lit ''1/1/1970, 12:00:00 AM''
       else if v = Num 86400000 then lit ''1/2/1970, 12:00:00 AM''
       else if v = Str (lit ''2025-01-01T00:00:00Z'') then lit ''1/1/2025, 12:00:00 AM''
       else lit ''Invalid Date''),
     numberToString = (\<lambda>n. digits (nat \<lfloor>n\<rfloor>)),
     unicodeLower = (\<lambda>s. s),
     unicodeUpper = (\<lambda>s. s),
     innerHTMLRoundTrip = (\<lambda>s. escapeAmp (finishEndTag s)),
     errorMessage = (\<lambda>e. case e of
         TypeError \<Rightarrow> lit ''Cannot read properties of undefined''
       | SyntaxError \<Rightarrow> lit ''Unexpected end of JSON input''
       | NetworkError \<Rightarrow> lit ''Failed to fetch'')
   \<rparr>"

definition page0 :: page where
  "page0 = \<lparr>resultEl = [], timers = [], nextTimerId = 0, btnDisabled = False,
            btnText = lit ''Analyze'', analyze = Idle, historyLoads = 0\<rparr>"

definition soreThroat :: jsval where
  "soreThroat = Obj [
     (lit ''disclaimer'', Str (lit ''Educational use only.'')),
     (lit ''probable_conditions'', Arr [
        Obj [(lit ''name'', Str (lit ''Viral infection'')),
             (lit ''confidence'', Str (lit ''High'')),
             (lit ''rationale'', Str (lit ''Common cause''))],
        Obj [(lit ''name'', Str (lit ''Strep throat'')),
             (lit ''confidence'', Str (lit ''medium'')),
             (lit ''rationale'', Str (lit ''Less common''))]]),
     (lit ''escalation'', Null),
     (lit ''next_steps'', Arr [Str (lit ''Rest''), Str (lit ''Fluids''), Str (lit ''See a doctor'')]),
     (lit ''metadata'', Obj [(lit ''model'', Str (lit ''llama3'')),
                            (lit ''timestamp'', Str (lit ''2025-01-01T00:00:00Z''))])]"

definition chestPain :: jsval where
  "chestPain = Obj [
     (lit ''disclaimer'', Str (lit ''Educational use only.'')),
     (lit ''probable_conditions'', Null),
     (lit ''escalation'', Obj [(lit ''level'', Str (lit ''critical'')),
                              (lit ''message'', Str (lit ''Seek emergency care''))])]"

definition maybeCondition :: jsval where
  "maybeCondition = Obj [(lit ''name'', Str (lit ''Flu'')),
                         (lit ''confidence'', Str (lit ''maybe'')),
                         (lit ''rationale'', Str (lit ''Seasonal''))]"


definition noNextSteps :: jsval where
  "noNextSteps = Obj [
     (lit ''disclaimer'', Str (lit ''Educational use only.'')),
     (lit ''probable_conditions'', Arr [
        Obj [(lit ''name'', Str (lit ''Flu'')),
             (lit ''confidence'', Str (lit ''high'')),
             (lit ''rationale'', Str (lit ''Seasonal''))]]),
     (lit ''next_steps'', Null)]"

definition noConditions :: jsval where
  "noConditions = Obj [
     (lit ''disclaimer'', Str (lit ''Educational use only.'')),
     (lit ''next_steps'', Arr [Str (lit ''Rest'')])]"

definition historyReply :: jsval where
  "historyReply = Obj [(lit ''history'', Arr [
     Obj [(lit ''query_id'', Str (lit ''q1'')), (lit ''symptoms'', Str (lit ''sore throat'')),
          (lit ''model_response'', soreThroat)],
     Obj [(lit ''query_id'', Str (lit ''q2'')), (lit ''symptoms'', Str (lit ''cough'')),
          (lit ''model_response'', Null)]])]"

section \<open>Basic facts\<close>

lemma bindE_simps [simp]:
  "bindE (Inl e) f = Inl e"
  "bindE (Inr x) f = f x"
  by (simp_all add: bindE_def)

lemma bindE_eq_Inr: "bindE m f = Inr y \<longleftrightarrow> (\<exists>x. m = Inr x \<and> f x = Inr y)"
  by (cases m) simp_all


lemma getPropOpt_eq: "getProp v k = Inr x \<Longrightarrow> getPropOpt v k = x"
  by (simp add: getPropOpt_def)

lemma getProp_not_nullish: "\<not> nullish v \<Longrightarrow> getProp v k = Inr (getPropOpt v k)"
  by (cases v) (simp_all add: getPropOpt_def)

lemma orEmpty_nullish: "nullish v \<Longrightarrow> orEmpty v = Arr []"
  by (cases v) (simp_all add: orEmpty_def)

lemma getPropOpt_Str: "getPropOpt v k = Str s \<Longrightarrow> getProp v k = Inr (Str s)"
  by (cases v) (simp_all add: getPropOpt_def)

lemma callToUpperCase_Inr:
  "callToUpperCase env v = Inr u \<longleftrightarrow> (\<exists>s. v = Str s \<and> u = toUpperCase env s)"
  by (cases v) auto


section \<open>What a successful rendering consists of\<close>

lemma escalation_Inr:
  \<open>escalation env data = Inr banner \<longleftrightarrow>
     (\<exists>e. getProp data (lit ''escalation'') = Inr e
        \<and> (if truthy e then
             \<exists>level message messageStr.
               getProp e (lit ''level'') = Inr (Str level)
               \<and> getProp e (lit ''message'') = Inr message
               \<and> toStr env message = Inr messageStr
               \<and> banner = lit ''<div class="alert '' @ level @ lit ''">\<newline>        ''
                   @ [0xD83D, 0xDEA8] @ lit '' <b>'' @ toUpperCase env level @ lit ''</b>: ''
                   @ messageStr @ lit ''\<newline>      </div>''
           else banner = []))\<close>
proof (cases "getProp data (lit ''escalation'')")
  case (Inl err)
  then show ?thesis by (simp add: escalation_def)
next
  case (Inr e)
  show ?thesis
  proof (cases "truthy e")
    case True
    then show ?thesis
      using Inr by (auto simp add: escalation_def bindE_eq_Inr callToUpperCase_Inr)
  next
    case False
    then show ?thesis using Inr by (auto simp add: escalation_def)
  qed
qed





lemma buildResultHTML_Inr:
  \<open>buildResultHTML env data = Inr h \<longleftrightarrow>
     (\<exists>banner blocks items disclaimer disclaimerStr model modelStr time timeStr.
        escalation env data = Inr banner
        \<and> conditions env data = Inr blocks
        \<and> nextSteps env data = Inr items
        \<and> getProp data (lit ''disclaimer'') = Inr disclaimer
        \<and> toStr env disclaimer = Inr disclaimerStr
        \<and> modelName data = Inr model
        \<and> toStr env model = Inr modelStr
        \<and> footerTime env data = Inr time
        \<and> newDateLocaleString env time = Inr timeStr
        \<and> h = lit ''\<newline>    <div class="result-card">\<newline>      <p class="disclaimer">''
            @ disclaimerStr @ lit ''</p>\<newline>      '' @ banner
            @ lit ''\<newline>      <h2>'' @ [0xD83E, 0xDE7A]
            @ lit '' Probable Conditions</h2>\<newline>      '' @ blocks
            @ lit ''\<newline>      <h2>'' @ [0xD83E, 0xDDED]
            @ lit '' Recommended Next Steps</h2>\<newline>      <ul>'' @ items
            @ lit ''</ul>\<newline>      <div class="meta">\<newline>        <small><b>Model:</b> ''
            @ modelStr @ lit ''</small> |\<newline>        <small>'' @ timeStr
            @ lit ''</small>\<newline>      </div>\<newline>    </div>'')\<close>
  unfolding buildResultHTML_def bindE_eq_Inr by blast

lemma buildResultHTML_nonempty: "buildResultHTML env data = Inr h \<Longrightarrow> h \<noteq> []"
  unfolding buildResultHTML_Inr by (auto simp add: lit_def)

lemma typeResult_Inr:
  "typeResult env data p = Inr p' \<longleftrightarrow>
     (\<exists>h. buildResultHTML env data = Inr h
        \<and> p' = p\<lparr>resultEl := [],
                  timers := (nextTimerId p, \<lparr>html = h, i = 0, tempDiv = []\<rparr>) # timers p,
                  nextTimerId := Suc (nextTimerId p)\<rparr>)"
  unfolding typeResult_def bindE_eq_Inr by auto

section \<open>The examples evaluated\<close>

lemmas render_defs =
  buildResultHTML_def escalation_def conditions_def nextSteps_def conditionBlock_def
  stepItem_def orEmpty_def modelName_def footerTime_def getPropOpt_def
  toLowerCase_def toUpperCase_def isAscii_def asciiLower_def asciiUpper_def

lemma soreThroat_renders: "\<exists>h. buildResultHTML env0 soreThroat = Inr h"
  by (simp add: render_defs soreThroat_def env0_def lit_def)

lemma chestPain_banner:
  \<open>escalation env0 chestPain
     = Inr (lit ''<div class="alert critical">\<newline>        '' @ [0xD83D, 0xDEA8]
            @ lit '' <b>CRITICAL</b>: Seek emergency care\<newline>      </div>'')\<close>
  by (simp add: render_defs chestPain_def env0_def lit_def)

lemma chestPain_renders:
  \<open>buildResultHTML env0 chestPain
     = Inr (lit ''\<newline>    <div class="result-card">\<newline>      <p class="disclaimer">''
            @ lit ''Educational use only.'' @ lit ''</p>\<newline>      ''
            @ (lit ''<div class="alert critical">\<newline>        '' @ [0xD83D, 0xDEA8]
               @ lit '' <b>CRITICAL</b>: Seek emergency care\<newline>      </div>'')
            @ lit ''\<newline>      <h2>'' @ [0xD83E, 0xDE7A]
            @ lit '' Probable Conditions</h2>\<newline>      ''
            @ lit ''\<newline>      <h2>'' @ [0xD83E, 0xDDED]
            @ lit '' Recommended Next Steps</h2>\<newline>      <ul>''
            @ lit ''</ul>\<newline>      <div class="meta">\<newline>        <small><b>Model:</b> ''
            @ lit ''local'' @ lit ''</small> |\<newline>        <small>''
            @ lit ''1/1/1970, 12:00:00 AM''
            @ lit ''</small>\<newline>      </div>\<newline>    </div>'')\<close>
  by (simp add: render_defs chestPain_def env0_def lit_def)

section \<open>The typing effect\<close>


lemma tick_continues:
  assumes "map_of (timers p) k = Some t" "Suc (i t) < length (html t)"
  shows "map_of (timers (tick env k p)) k
           = Some (t\<lparr>tempDiv := take (i t) (html t), i := Suc (i t)\<rparr>)"
    and "resultEl (tick env k p) = innerHTMLRoundTrip env (take (i t) (html t))"
  using assms by (simp_all add: tick_def Let_def update_conv')

lemma tick_stops:
  assumes "map_of (timers p) k = Some t" "length (html t) \<le> Suc (i t)"
  shows "map_of (timers (tick env k p)) k = None"
    and "resultEl (tick env k p) = innerHTMLRoundTrip env (take (i t) (html t))"
  using assms by (simp_all add: tick_def Let_def delete_conv')

lemma reveals_from:
  assumes "map_of (timers p) k = Some t"
  shows "reveals env k p
           = map (\<lambda>n. take n (html t)) [i t ..< max (Suc (i t)) (length (html t))]"
  using assms
proof (induction "length (html t) - i t" arbitrary: p t)
  case 0
  then have stop: "length (html t) \<le> Suc (i t)" by simp
  have "reveals env k p = [take (i t) (html t)]"
    using 0 tick_stops(1) [OF "0.prems" stop, of env]
    by (simp add: reveals.simps [of env k p] reveals.simps [of env k "tick env k p"])
  moreover have "max (Suc (i t)) (length (html t)) = Suc (i t)" using stop by simp
  ultimately show ?case by simp
next
  case (Suc d)
  show ?case
  proof (cases "Suc (i t) < length (html t)")
    case True
    let ?t' = "t\<lparr>tempDiv := take (i t) (html t), i := Suc (i t)\<rparr>"
    have live: "map_of (timers (tick env k p)) k = Some ?t'"
      by (rule tick_continues(1) [OF Suc.prems True])
    have "d = length (html ?t') - i ?t'" using Suc.hyps(2) by simp
    from Suc.hyps(1) [OF this live]
    have "reveals env k (tick env k p)
            = map (\<lambda>n. take n (html t)) [Suc (i t) ..< length (html t)]"
      using True by (simp add: max_def)
    then have "reveals env k p = map (\<lambda>n. take n (html t)) (i t # [Suc (i t) ..< length (html t)])"
      using Suc.prems by (simp add: reveals.simps [of env k p])
    moreover have "i t # [Suc (i t) ..< length (html t)] = [i t ..< length (html t)]"
      using True by (simp add: upt_conv_Cons)
    ultimately show ?thesis using True by (simp add: max_def)
  next
    case False
    then have stop: "length (html t) \<le> Suc (i t)" by simp
    have "reveals env k p = [take (i t) (html t)]"
      using Suc.prems tick_stops(1) [OF Suc.prems stop, of env]
      by (simp add: reveals.simps [of env k p] reveals.simps [of env k "tick env k p"])
    moreover have "max (Suc (i t)) (length (html t)) = Suc (i t)" using stop by simp
    ultimately show ?thesis by simp
  qed
qed


lemma typeResult_reveals:
  assumes "typeResult env data p = Inr p'"
  shows "\<exists>h. buildResultHTML env data = Inr h
           \<and> reveals env (nextTimerId p) p' = map (\<lambda>n. take n h) [0 ..< length h]"
proof -
  from assms obtain h where h: "buildResultHTML env data = Inr h"
    and p': "p' = p\<lparr>resultEl := [],
                  timers := (nextTimerId p, \<lparr>html = h, i = 0, tempDiv = []\<rparr>) # timers p,
                  nextTimerId := Suc (nextTimerId p)\<rparr>"
    unfolding typeResult_Inr by blast
  have live: "map_of (timers p') (nextTimerId p) = Some \<lparr>html = h, i = 0, tempDiv = []\<rparr>"
    using p' by simp
  have "h \<noteq> []" using h by (rule buildResultHTML_nonempty)
  then have "max (Suc 0) (length h) = length h" by (cases h) simp_all
  then show ?thesis using reveals_from [OF live, of env] h by simp
qed






lemma env0_roundTrip: "innerHTMLRoundTrip env0 s = escapeAmp (finishEndTag s)"
  by (simp add: env0_def)


lemma env0_roundTrip_examples:
  "innerHTMLRoundTrip env0 [] = []"
  "innerHTMLRoundTrip env0 (lit ''\<newline> '') = lit ''\<newline> ''"
  by (simp_all add: env0_roundTrip finishEndTag_def lit_def suffix_def)






text \<open>
  Claim C2, as the code has it. \<^verbatim>\<open>typeResult\<close> keeps no handle on an interval it
  started and clears none: a call while a reveal is in flight empties the output and
  starts a new interval whose first firing shows the empty prefix, and every interval
  that was live stays live with its counter unchanged, its next firing overwriting the
  output with its own next prefix.
\<close>

theorem typeResult_restart_keeps_old_timers:
  assumes "typeResult env data p = Inr p'"
  shows "resultEl p' = []
       \<and> (\<exists>h. buildResultHTML env data = Inr h
              \<and> map_of (timers p') (nextTimerId p) = Some \<lparr>html = h, i = 0, tempDiv = []\<rparr>
              \<and> resultEl (tick env (nextTimerId p) p') = innerHTMLRoundTrip env [])
       \<and> (\<forall>k. k \<noteq> nextTimerId p \<longrightarrow> map_of (timers p') k = map_of (timers p) k)
       \<and> (\<forall>k t. k \<noteq> nextTimerId p \<and> map_of (timers p) k = Some t \<longrightarrow>
              resultEl (tick env k p') = innerHTMLRoundTrip env (take (i t) (html t)))"
proof -
  from assms obtain h where h: "buildResultHTML env data = Inr h"
    and p': "p' = p\<lparr>resultEl := [],
                  timers := (nextTimerId p, \<lparr>html = h, i = 0, tempDiv = []\<rparr>) # timers p,
                  nextTimerId := Suc (nextTimerId p)\<rparr>"
    unfolding typeResult_Inr by blast
  have new: "map_of (timers p') (nextTimerId p) = Some \<lparr>html = h, i = 0, tempDiv = []\<rparr>"
    using p' by simp
  have old: "map_of (timers p') k = map_of (timers p) k" if "k \<noteq> nextTimerId p" for k
    using p' that by simp
  have first: "resultEl (tick env (nextTimerId p) p') = innerHTMLRoundTrip env []"
    using new by (simp add: tick_def Let_def)
  have later: "resultEl (tick env k p') = innerHTMLRoundTrip env (take (i t) (html t))"
    if "k \<noteq> nextTimerId p" "map_of (timers p) k = Some t" for k t
    using old [OF that(1)] that(2) by (simp add: tick_def Let_def)
  show ?thesis using p' h new old first later by auto
qed

text \<open>
  A second record arrives after two firings of the first reveal: the first interval is
  still live at its third prefix, and its next firing writes it over the emptied output.
\<close>

theorem typeResult_restart_keeps_old_timers_witness:
  "\<exists>p1 p2 h. typeResult env0 soreThroat page0 = Inr p1
     \<and> typeResult env0 chestPain (tick env0 0 (tick env0 0 p1)) = Inr p2
     \<and> buildResultHTML env0 soreThroat = Inr h
     \<and> resultEl p2 = []
     \<and> map_of (timers p2) 0 = Some \<lparr>html = h, i = 2, tempDiv = take 1 h\<rparr>
     \<and> resultEl (tick env0 0 p2) = take 2 h"
proof -
  from soreThroat_renders obtain h where h: "buildResultHTML env0 soreThroat = Inr h" ..
  then have len: "2 < length h" and start: "take 2 h = lit ''\<newline> ''"
    unfolding buildResultHTML_Inr by (auto simp add: lit_def)
  define p1 where "p1 = page0\<lparr>resultEl := [],
                  timers := (nextTimerId page0, \<lparr>html = h, i = 0, tempDiv = []\<rparr>) # timers page0,
                  nextTimerId := Suc (nextTimerId page0)\<rparr>"
  have p1: "typeResult env0 soreThroat page0 = Inr p1"
    unfolding typeResult_Inr using h p1_def by blast
  let ?q = "tick env0 0 (tick env0 0 p1)"
  have q: "map_of (timers ?q) 0 = Some \<lparr>html = h, i = 2, tempDiv = take 1 h\<rparr>"
    "nextTimerId ?q = 1"
    using len by (simp_all add: p1_def page0_def tick_def Let_def numeral_2_eq_2)
  obtain p2 where p2: "typeResult env0 chestPain ?q = Inr p2"
    by (simp add: typeResult_def chestPain_renders)
  from typeResult_restart_keeps_old_timers [OF p2]
  have "resultEl p2 = []"
    and "map_of (timers p2) 0 = map_of (timers ?q) 0"
    and "resultEl (tick env0 0 p2) = innerHTMLRoundTrip env0 (take 2 h)"
    using q by auto
  then show ?thesis using p1 p2 h q by (auto simp add: start env0_roundTrip_examples)
qed

text \<open>
  Claim C2 as stated fails: after the restart the earlier interval is not cancelled, and
  its next firing changes the output from the empty string to two code units of the
  earlier markup.
\<close>

theorem typeResult_restart_counterexample:
  \<open>(case typeResult env0 chestPain page0 of
      Inl e \<Rightarrow> False
    | Inr p1 \<Rightarrow>
        (case typeResult env0 chestPain (tick env0 0 (tick env0 0 p1)) of
           Inl e \<Rightarrow> False
         | Inr p2 \<Rightarrow>
             map_of (timers p2) 0 \<noteq> None
             \<and> resultEl p2 = []
             \<and> resultEl (tick env0 0 p2) = lit ''\<newline> ''
             \<and> resultEl (tick env0 0 p2) \<noteq> resultEl p2))\<close>
proof -
  have rt: "innerHTMLRoundTrip env0 [] = []" "innerHTMLRoundTrip env0 [10] = [10]"
    "innerHTMLRoundTrip env0 [10, 32] = [10, 32]"
    by (simp_all add: env0_roundTrip finishEndTag_def lit_def suffix_def)
  show ?thesis
    by (simp add: typeResult_def chestPain_renders page0_def tick_def Let_def rt lit_def)
qed

text \<open>
  Growth of the reveal: every slice an interval of \<^verbatim>\<open>typeResult\<close> assigns is one code
  unit longer than the slice before it and extends it, the \<open>n\<close>-th being of length \<open>n\<close>.
\<close>

theorem reveals_grow_by_one:
  assumes "typeResult env data p = Inr p'"
      and "Suc n < length (reveals env (nextTimerId p) p')"
  shows "strict_prefix (reveals env (nextTimerId p) p' ! n) (reveals env (nextTimerId p) p' ! Suc n)
       \<and> length (reveals env (nextTimerId p) p' ! n) = n
       \<and> length (reveals env (nextTimerId p) p' ! Suc n) = Suc n"
proof -
  from typeResult_reveals [OF assms(1)] obtain h where
    r: "reveals env (nextTimerId p) p' = map (\<lambda>n. take n h) [0 ..< length h]" by blast
  then have n: "Suc n < length h" using assms(2) by simp
  have a: "reveals env (nextTimerId p) p' ! n = take n h"
    and b: "reveals env (nextTimerId p) p' ! Suc n = take (Suc n) h"
    using r n by simp_all
  have "take n h = take n (take (Suc n) h)" by (simp add: min_def)
  then have "prefix (take n h) (take (Suc n) h)" by (metis take_is_prefix)
  moreover have "length (take n h) = n" "length (take (Suc n) h) = Suc n" using n by simp_all
  moreover from this have "take n h \<noteq> take (Suc n) h" by (metis n_not_Suc_n)
  ultimately show ?thesis unfolding a b strict_prefix_def by simp
qed

theorem reveals_grow_by_one_witness:
  "\<exists>p'. typeResult env0 chestPain page0 = Inr p'
     \<and> Suc 1 < length (reveals env0 0 p')
     \<and> strict_prefix (reveals env0 0 p' ! 1) (reveals env0 0 p' ! Suc 1)"
proof -
  obtain p' where p': "typeResult env0 chestPain page0 = Inr p'"
    by (simp add: typeResult_def chestPain_renders)
  have k: "nextTimerId page0 = 0" by (simp add: page0_def)
  from typeResult_reveals [OF p'] obtain h where
    h: "buildResultHTML env0 chestPain = Inr h"
    and r: "reveals env0 (nextTimerId page0) p' = map (\<lambda>n. take n h) [0 ..< length h]"
    by blast
  have "length (reveals env0 (nextTimerId page0) p') = length h" by (simp only: r length_map length_upt)
  moreover have "Suc 1 < length h"
    using h unfolding buildResultHTML_Inr by (auto simp add: lit_def)
  ultimately have len: "Suc 1 < length (reveals env0 (nextTimerId page0) p')" by simp
  from reveals_grow_by_one [OF p' len] len p' show ?thesis by (simp only: k) blast
qed

section \<open>The renderer\<close>

lemma toStr_now [simp]: "toStr (env\<lparr>now := a\<rparr>) v = toStr env v"
proof (induction v)
  case (Arr xs)
  have "map (\<lambda>x. if nullish x then Inr [] else toStr (env\<lparr>now := a\<rparr>) x) xs
        = map (\<lambda>x. if nullish x then Inr [] else toStr env x) xs"
    using Arr by (intro map_cong) auto
  then show ?case by (simp only: toStr.simps)
qed simp_all

lemma callToUpperCase_now [simp]: "callToUpperCase (env\<lparr>now := a\<rparr>) v = callToUpperCase env v"
  by (cases v) (simp_all add: toUpperCase_def)

lemma callToLowerCaseOpt_now [simp]:
  "callToLowerCaseOpt (env\<lparr>now := a\<rparr>) v = callToLowerCaseOpt env v"
  by (cases v) (simp_all add: toLowerCase_def)

lemma newDateLocaleString_now [simp]:
  "newDateLocaleString (env\<lparr>now := a\<rparr>) v = newDateLocaleString env v"
  by (cases v) (simp_all cong: if_cong)

lemma escalation_now [simp]: "escalation (env\<lparr>now := a\<rparr>) data = escalation env data"
  by (simp add: escalation_def cong: if_cong)

lemma conditionBlock_now [simp]: "conditionBlock (env\<lparr>now := a\<rparr>) = conditionBlock env"
  by (rule ext) (simp add: conditionBlock_def)

lemma stepItem_now [simp]: "stepItem (env\<lparr>now := a\<rparr>) = stepItem env"
  by (rule ext) (simp add: stepItem_def)

lemma conditions_now [simp]: "conditions (env\<lparr>now := a\<rparr>) data = conditions env data"
  by (simp add: conditions_def)

lemma nextSteps_now [simp]: "nextSteps (env\<lparr>now := a\<rparr>) data = nextSteps env data"
  by (simp add: nextSteps_def)

lemma footerTime_stamped:
  assumes "truthy (getPropOpt (getPropOpt data (lit ''metadata'')) (lit ''timestamp''))"
  shows "footerTime env data
           = bindE (getProp data (lit ''metadata''))
               (\<lambda>metadata. Inr (getPropOpt metadata (lit ''timestamp'')))"
  using assms by (cases "getProp data (lit ''metadata'')") (simp_all add: footerTime_def getPropOpt_def)

text \<open>
  Claim C3, as the code has it. \<^verbatim>\<open>buildResultHTML\<close> reads its record and, only when the
  record's metadata has no truthy timestamp, the clock. For a record with a timestamp two
  calls give the same result whatever the clock reads at each.
\<close>

theorem buildResultHTML_clock_independent:
  assumes "truthy (getPropOpt (getPropOpt data (lit ''metadata'')) (lit ''timestamp''))"
  shows "buildResultHTML (env\<lparr>now := a\<rparr>) data = buildResultHTML (env\<lparr>now := b\<rparr>) data"
  by (simp add: buildResultHTML_def footerTime_stamped [OF assms])

theorem buildResultHTML_clock_independent_witness:
  "truthy (getPropOpt (getPropOpt soreThroat (lit ''metadata'')) (lit ''timestamp''))
   \<and> buildResultHTML (env0\<lparr>now := 0\<rparr>) soreThroat
       = buildResultHTML (env0\<lparr>now := 86400000\<rparr>) soreThroat"
proof -
  have t: "truthy (getPropOpt (getPropOpt soreThroat (lit ''metadata'')) (lit ''timestamp''))"
    by (simp add: soreThroat_def getPropOpt_def lit_def)
  show ?thesis
    using t buildResultHTML_clock_independent [OF t, where env = env0 and a = 0 and b = 86400000] by simp
qed

text \<open>
  Claim C3 as stated fails: the record \<open>chestPain\<close> has no metadata, and two calls one day
  apart print different footers.
\<close>

theorem buildResultHTML_clock_counterexample:
  "buildResultHTML (env0\<lparr>now := 0\<rparr>) chestPain
     \<noteq> buildResultHTML (env0\<lparr>now := 86400000\<rparr>) chestPain"
  by (simp add: render_defs chestPain_def env0_def lit_def)

lemma toLowerCase_Low:
  "toLowerCase env (lit ''Low'') = lit ''low''"
  "toLowerCase env (lit ''LOW'') = lit ''low''"
  "toLowerCase env (lit ''low'') = lit ''low''"
  by (simp_all add: toLowerCase_def isAscii_def asciiLower_def lit_def)

text \<open>
  Claim C4, as the code has it. A condition whose confidence is a string, recognized or
  not, is rendered without failing whenever its name and rationale print: the indicator
  element carries the lowercased value as its class and the value itself follows as
  text. \<open>Low\<close>, \<open>LOW\<close> and \<open>low\<close> all give the class \<open>low\<close>.
\<close>

theorem conditionBlock_confidence_class:
  assumes "getPropOpt c (lit ''confidence'') = Str s"
      and "toStr env (getPropOpt c (lit ''name'')) = Inr nameStr"
      and "toStr env (getPropOpt c (lit ''rationale'')) = Inr rationaleStr"
  shows \<open>conditionBlock env c
           = Inr (lit ''\<newline>      <div class="condition">\<newline>        <h3>'' @ nameStr
                  @ lit ''</h3>\<newline>        <div class="confidence-bar '' @ toLowerCase env s
                  @ lit ''"><div></div></div>\<newline>        <p><b>Confidence:</b> ''
                  @ s @ lit ''</p>\<newline>        <p>'' @ rationaleStr
                  @ lit ''</p>\<newline>      </div>'')
         \<and> toLowerCase env (lit ''Low'') = lit ''low''
         \<and> toLowerCase env (lit ''LOW'') = lit ''low''
         \<and> toLowerCase env (lit ''low'') = lit ''low''\<close>
proof -
  have conf: "getProp c (lit ''confidence'') = Inr (Str s)"
    using assms(1) by (rule getPropOpt_Str)
  then have "\<not> nullish c" by (cases c) simp_all
  then have props: "getProp c (lit ''name'') = Inr (getPropOpt c (lit ''name''))"
    "getProp c (lit ''rationale'') = Inr (getPropOpt c (lit ''rationale''))"
    by (simp_all add: getProp_not_nullish)
  show ?thesis
    by (simp add: conditionBlock_def conf props assms(2,3) toLowerCase_Low)
qed

theorem conditionBlock_confidence_class_witness:
  \<open>getPropOpt (Obj [(lit ''name'', Str (lit ''Flu'')), (lit ''confidence'', Str (lit ''LOW'')),
                    (lit ''rationale'', Str (lit ''Seasonal''))]) (lit ''confidence'')
     = Str (lit ''LOW'')
   \<and> conditionBlock env0
       (Obj [(lit ''name'', Str (lit ''Flu'')), (lit ''confidence'', Str (lit ''LOW'')),
             (lit ''rationale'', Str (lit ''Seasonal''))])
     = Inr (lit ''\<newline>      <div class="condition">\<newline>        <h3>Flu</h3>\<newline>        <div class="confidence-bar low"><div></div></div>\<newline>        <p><b>Confidence:</b> LOW</p>\<newline>        <p>Seasonal</p>\<newline>      </div>'')\<close>
proof -
  let ?c = "Obj [(lit ''name'', Str (lit ''Flu'')), (lit ''confidence'', Str (lit ''LOW'')),
                 (lit ''rationale'', Str (lit ''Seasonal''))]"
  have a: "getPropOpt ?c (lit ''confidence'') = Str (lit ''LOW'')"
    and b: "toStr env0 (getPropOpt ?c (lit ''name'')) = Inr (lit ''Flu'')"
    and c: "toStr env0 (getPropOpt ?c (lit ''rationale'')) = Inr (lit ''Seasonal'')"
    by (simp_all add: getPropOpt_def lit_def)
  show ?thesis
    using a conditionBlock_confidence_class [OF a b c]
    by (simp add: lit_def)
qed

text \<open>
  Claim C4 as stated fails: the unrecognized confidence \<open>maybe\<close> is rendered with a
  confidence indicator, of class \<open>maybe\<close>.
\<close>

theorem conditionBlock_unrecognized_counterexample:
  \<open>conditionBlock env0 maybeCondition
     = Inr (lit ''\<newline>      <div class="condition">\<newline>        <h3>Flu</h3>\<newline>        ''
            @ lit ''<div class="confidence-bar maybe"><div></div></div>''
            @ lit ''\<newline>        <p><b>Confidence:</b> maybe</p>\<newline>        <p>Seasonal</p>\<newline>      </div>'')\<close>
  by (simp add: render_defs maybeCondition_def env0_def lit_def)

text \<open>
  Claim C6. In every markup \<^verbatim>\<open>buildResultHTML\<close> produces, the place between the
  disclaimer and the conditions heading holds a banner exactly when the record's
  \<^verbatim>\<open>escalation\<close> is present (truthy), and nothing otherwise. The banner carries the level
  as its class, the level in upper case as its tag, and the text of the message as it is.
\<close>

theorem escalation_banner_iff_present:
  assumes "buildResultHTML env data = Inr h"
  shows \<open>\<exists>banner disclaimerStr rest.
           escalation env data = Inr banner
           \<and> h = lit ''\<newline>    <div class="result-card">\<newline>      <p class="disclaimer">''
               @ disclaimerStr @ lit ''</p>\<newline>      '' @ banner @ lit ''\<newline>      <h2>'' @ rest
           \<and> (banner \<noteq> [] \<longleftrightarrow> truthy (getPropOpt data (lit ''escalation'')))
           \<and> (truthy (getPropOpt data (lit ''escalation'')) \<longrightarrow>
                (\<exists>level message messageStr.
                   getProp (getPropOpt data (lit ''escalation'')) (lit ''level'') = Inr (Str level)
                   \<and> getProp (getPropOpt data (lit ''escalation'')) (lit ''message'') = Inr message
                   \<and> toStr env message = Inr messageStr
                   \<and> banner = lit ''<div class="alert '' @ level @ lit ''">\<newline>        ''
                       @ [0xD83D, 0xDEA8] @ lit '' <b>'' @ toUpperCase env level @ lit ''</b>: ''
                       @ messageStr @ lit ''\<newline>      </div>''))\<close>
proof -
  from assms obtain banner blocks items disclaimerStr modelStr timeStr where
    b: "escalation env data = Inr banner" and
    h: \<open>h = lit ''\<newline>    <div class="result-card">\<newline>      <p class="disclaimer">''
            @ disclaimerStr @ lit ''</p>\<newline>      '' @ banner
            @ lit ''\<newline>      <h2>'' @ [0xD83E, 0xDE7A]
            @ lit '' Probable Conditions</h2>\<newline>      '' @ blocks
            @ lit ''\<newline>      <h2>'' @ [0xD83E, 0xDDED]
            @ lit '' Recommended Next Steps</h2>\<newline>      <ul>'' @ items
            @ lit ''</ul>\<newline>      <div class="meta">\<newline>        <small><b>Model:</b> ''
            @ modelStr @ lit ''</small> |\<newline>        <small>'' @ timeStr
            @ lit ''</small>\<newline>      </div>\<newline>    </div>''\<close>
    unfolding buildResultHTML_Inr by blast
  from b obtain e where e: "getProp data (lit ''escalation'') = Inr e" and
    shape: \<open>if truthy e then
             \<exists>level message messageStr.
               getProp e (lit ''level'') = Inr (Str level)
               \<and> getProp e (lit ''message'') = Inr message
               \<and> toStr env message = Inr messageStr
               \<and> banner = lit ''<div class="alert '' @ level @ lit ''">\<newline>        ''
                   @ [0xD83D, 0xDEA8] @ lit '' <b>'' @ toUpperCase env level @ lit ''</b>: ''
                   @ messageStr @ lit ''\<newline>      </div>''
           else banner = []\<close>
    unfolding escalation_Inr by blast
  have opt: "getPropOpt data (lit ''escalation'') = e" using e by (rule getPropOpt_eq)
  have ne: "banner \<noteq> [] \<longleftrightarrow> truthy e"
    using shape by (auto simp add: lit_def split: if_splits)
  show ?thesis
    apply (rule exI [of _ banner], rule exI [of _ disclaimerStr])
    apply (rule exI)
    apply (intro conjI)
       apply (rule b)
      apply (subst h, rule refl)
     apply (simp add: opt ne)
    using shape apply (simp add: opt split: if_splits)
    done
qed

theorem escalation_banner_iff_present_witness:
  \<open>\<exists>h h'. buildResultHTML env0 chestPain = Inr h
     \<and> truthy (getPropOpt chestPain (lit ''escalation''))
     \<and> sublist (lit ''<div class="alert critical">\<newline>        '' @ [0xD83D, 0xDEA8]
                 @ lit '' <b>CRITICAL</b>: Seek emergency care\<newline>      </div>'') h
     \<and> buildResultHTML env0 soreThroat = Inr h'
     \<and> \<not> truthy (getPropOpt soreThroat (lit ''escalation''))
     \<and> escalation env0 soreThroat = Inr []\<close>
proof -
  obtain h where h: "buildResultHTML env0 chestPain = Inr h"
    using chestPain_renders by blast
  from soreThroat_renders obtain h' where h': "buildResultHTML env0 soreThroat = Inr h'" ..
  have t: "truthy (getPropOpt chestPain (lit ''escalation''))"
    by (simp add: chestPain_def getPropOpt_def lit_def)
  have f: "\<not> truthy (getPropOpt soreThroat (lit ''escalation''))"
    by (simp add: soreThroat_def getPropOpt_def lit_def)
  from escalation_banner_iff_present [OF h] chestPain_banner
  obtain pre post where
    \<open>h = pre @ (lit ''<div class="alert critical">\<newline>        '' @ [0xD83D, 0xDEA8]
                 @ lit '' <b>CRITICAL</b>: Seek emergency care\<newline>      </div>'') @ post\<close>
    by (metis append.assoc sum.inject(2))
  then have s: \<open>sublist (lit ''<div class="alert critical">\<newline>        '' @ [0xD83D, 0xDEA8]
                 @ lit '' <b>CRITICAL</b>: Seek emergency care\<newline>      </div>'') h\<close>
    by (metis sublist_appendI)
  from escalation_banner_iff_present [OF h'] f
  have e: "escalation env0 soreThroat = Inr []" by auto
  show ?thesis using h h' t f s e by blast
qed





lemma example_footer:
  "modelName noNextSteps = Inr (Str (lit ''local''))"
  "modelName noConditions = Inr (Str (lit ''local''))"
  "modelName chestPain = Inr (Str (lit ''local''))"
  "footerTime env0 noNextSteps = Inr (Num 0)"
  "footerTime env0 noConditions = Inr (Num 0)"
  "footerTime env0 chestPain = Inr (Num 0)"
  "newDateLocaleString env0 (Num 0) = Inr (lit ''1/1/1970, 12:00:00 AM'')"
  by (simp_all add: modelName_def footerTime_def noNextSteps_def noConditions_def chestPain_def
      getPropOpt_def env0_def lit_def)

text \<open>
  Claim C10. On a record whose \<^verbatim>\<open>probable_conditions\<close> is \<^verbatim>\<open>null\<close> or absent the
  conditions section is rendered as of an empty sequence, and likewise the next-steps
  list when \<^verbatim>\<open>next_steps\<close> is \<^verbatim>\<open>null\<close> or absent, each whatever the other field holds.
  Whenever the rest of the record renders (banner, disclaimer, model name, time, and
  the other sequence when it is there) \<^verbatim>\<open>buildResultHTML\<close> returns the complete markup,
  with nothing in the place of a missing sequence.
\<close>

theorem buildResultHTML_null_sequences:
  assumes "\<not> nullish data"
      and "escalation env data = Inr banner"
      and "toStr env (getPropOpt data (lit ''disclaimer'')) = Inr disclaimerStr"
      and "modelName data = Inr model" and "toStr env model = Inr modelStr"
      and "footerTime env data = Inr time" and "newDateLocaleString env time = Inr timeStr"
      and "if nullish (getPropOpt data (lit ''probable_conditions'')) then blocks = []
           else conditions env data = Inr blocks"
      and "if nullish (getPropOpt data (lit ''next_steps'')) then items = []
           else nextSteps env data = Inr items"
  shows \<open>(nullish (getPropOpt data (lit ''probable_conditions'')) \<longrightarrow>
            conditions env data = Inr [])
         \<and> (nullish (getPropOpt data (lit ''next_steps'')) \<longrightarrow> nextSteps env data = Inr [])
         \<and> buildResultHTML env data
             = Inr (lit ''\<newline>    <div class="result-card">\<newline>      <p class="disclaimer">''
                    @ disclaimerStr @ lit ''</p>\<newline>      '' @ banner
                    @ lit ''\<newline>      <h2>'' @ [0xD83E, 0xDE7A]
                    @ lit '' Probable Conditions</h2>\<newline>      '' @ blocks
                    @ lit ''\<newline>      <h2>'' @ [0xD83E, 0xDDED]
                    @ lit '' Recommended Next Steps</h2>\<newline>      <ul>'' @ items
                    @ lit ''</ul>\<newline>      <div class="meta">\<newline>        <small><b>Model:</b> ''
                    @ modelStr @ lit ''</small> |\<newline>        <small>'' @ timeStr
                    @ lit ''</small>\<newline>      </div>\<newline>    </div>'')\<close>
proof -
  have c0: "conditions env data = Inr []"
    if "nullish (getPropOpt data (lit ''probable_conditions''))"
    by (simp add: conditions_def getProp_not_nullish [OF assms(1)] orEmpty_nullish [OF that])
  have n0: "nextSteps env data = Inr []" if "nullish (getPropOpt data (lit ''next_steps''))"
    by (simp add: nextSteps_def getProp_not_nullish [OF assms(1)] orEmpty_nullish [OF that])
  have c: "conditions env data = Inr blocks"
    using assms(8) c0 by (cases "nullish (getPropOpt data (lit ''probable_conditions''))") simp_all
  have n: "nextSteps env data = Inr items"
    using assms(9) n0 by (cases "nullish (getPropOpt data (lit ''next_steps''))") simp_all
  have "buildResultHTML env data
          = Inr (lit ''\<newline>    <div class=\"result-card\">\<newline>      <p class=\"disclaimer\">''
                    @ disclaimerStr @ lit ''</p>\<newline>      '' @ banner
                    @ lit ''\<newline>      <h2>'' @ [0xD83E, 0xDE7A]
                    @ lit '' Probable Conditions</h2>\<newline>      '' @ blocks
                    @ lit ''\<newline>      <h2>'' @ [0xD83E, 0xDDED]
                    @ lit '' Recommended Next Steps</h2>\<newline>      <ul>'' @ items
                    @ lit ''</ul>\<newline>      <div class=\"meta\">\<newline>        <small><b>Model:</b> ''
                    @ modelStr @ lit ''</small> |\<newline>        <small>'' @ timeStr
                    @ lit ''</small>\<newline>      </div>\<newline>    </div>'')"
    by (simp add: c n buildResultHTML_def assms(2-7) getProp_not_nullish [OF assms(1)])
  then show ?thesis using c0 n0 by blast
qed

text \<open>
  Three records: conditions with \<^verbatim>\<open>next_steps\<close> \<^verbatim>\<open>null\<close>, next steps with
  \<^verbatim>\<open>probable_conditions\<close> absent, and both missing.
\<close>

theorem buildResultHTML_null_sequences_witness:
  \<open>getPropOpt noNextSteps (lit ''next_steps'') = Null
   \<and> \<not> nullish (getPropOpt noNextSteps (lit ''probable_conditions''))
   \<and> nextSteps env0 noNextSteps = Inr []
   \<and> buildResultHTML env0 noNextSteps
       = Inr (lit ''\<newline>    <div class="result-card">\<newline>      <p class="disclaimer">''
              @ lit ''Educational use only.'' @ lit ''</p>\<newline>      ''
              @ lit ''\<newline>      <h2>'' @ [0xD83E, 0xDE7A]
              @ lit '' Probable Conditions</h2>\<newline>      ''
              @ lit ''\<newline>      <div class="condition">\<newline>        <h3>Flu</h3>\<newline>        <div class="confidence-bar high"><div></div></div>\<newline>        <p><b>Confidence:</b> high</p>\<newline>        <p>Seasonal</p>\<newline>      </div>''
              @ lit ''\<newline>      <h2>'' @ [0xD83E, 0xDDED]
              @ lit '' Recommended Next Steps</h2>\<newline>      <ul>''
              @ lit ''</ul>\<newline>      <div class="meta">\<newline>        <small><b>Model:</b> ''
              @ lit ''local'' @ lit ''</small> |\<newline>        <small>''
              @ lit ''1/1/1970, 12:00:00 AM''
              @ lit ''</small>\<newline>      </div>\<newline>    </div>'')
   \<and> getPropOpt noConditions (lit ''probable_conditions'') = Undefined
   \<and> \<not> nullish (getPropOpt noConditions (lit ''next_steps''))
   \<and> conditions env0 noConditions = Inr []
   \<and> buildResultHTML env0 noConditions
       = Inr (lit ''\<newline>    <div class="result-card">\<newline>      <p class="disclaimer">''
              @ lit ''Educational use only.'' @ lit ''</p>\<newline>      ''
              @ lit ''\<newline>      <h2>'' @ [0xD83E, 0xDE7A]
              @ lit '' Probable Conditions</h2>\<newline>      ''
              @ lit ''\<newline>      <h2>'' @ [0xD83E, 0xDDED]
              @ lit '' Recommended Next Steps</h2>\<newline>      <ul>''
              @ lit ''<li>Rest</li>''
              @ lit ''</ul>\<newline>      <div class="meta">\<newline>        <small><b>Model:</b> ''
              @ lit ''local'' @ lit ''</small> |\<newline>        <small>''
              @ lit ''1/1/1970, 12:00:00 AM''
              @ lit ''</small>\<newline>      </div>\<newline>    </div>'')
   \<and> getPropOpt chestPain (lit ''probable_conditions'') = Null
   \<and> getPropOpt chestPain (lit ''next_steps'') = Undefined
   \<and> conditions env0 chestPain = Inr []
   \<and> nextSteps env0 chestPain = Inr []
   \<and> (\<exists>h. buildResultHTML env0 chestPain = Inr h)\<close>
proof -
  have nn: "\<not> nullish noNextSteps" "\<not> nullish noConditions" "\<not> nullish chestPain"
    by (simp_all add: noNextSteps_def noConditions_def chestPain_def)
  have d: "toStr env0 (getPropOpt noNextSteps (lit ''disclaimer'')) = Inr (lit ''Educational use only.'')"
    "toStr env0 (getPropOpt noConditions (lit ''disclaimer'')) = Inr (lit ''Educational use only.'')"
    "toStr env0 (getPropOpt chestPain (lit ''disclaimer'')) = Inr (lit ''Educational use only.'')"
    by (simp_all add: noNextSteps_def noConditions_def chestPain_def getPropOpt_def lit_def)
  have e: "escalation env0 noNextSteps = Inr []" "escalation env0 noConditions = Inr []"
    by (simp_all add: escalation_def noNextSteps_def noConditions_def lit_def)
  have ms: "toStr env0 (Str (lit ''local'')) = Inr (lit ''local'')" by simp
  have f: "getPropOpt noNextSteps (lit ''next_steps'') = Null"
    "getPropOpt noConditions (lit ''probable_conditions'') = Undefined"
    "getPropOpt chestPain (lit ''probable_conditions'') = Null"
    "getPropOpt chestPain (lit ''next_steps'') = Undefined"
    by (simp_all add: noNextSteps_def noConditions_def chestPain_def getPropOpt_def lit_def)
  have g: "\<not> nullish (getPropOpt noNextSteps (lit ''probable_conditions''))"
    "\<not> nullish (getPropOpt noConditions (lit ''next_steps''))"
    by (simp_all add: noNextSteps_def noConditions_def getPropOpt_def lit_def)
  have c1: \<open>conditions env0 noNextSteps
              = Inr (lit ''\<newline>      <div class="condition">\<newline>        <h3>Flu</h3>\<newline>        <div class="confidence-bar high"><div></div></div>\<newline>        <p><b>Confidence:</b> high</p>\<newline>        <p>Seasonal</p>\<newline>      </div>'')\<close>
    by (simp add: render_defs noNextSteps_def lit_def)
  have n2: "nextSteps env0 noConditions = Inr (lit ''<li>Rest</li>'')"
    by (simp add: render_defs noConditions_def lit_def)
  have h1: \<open>if nullish (getPropOpt noNextSteps (lit ''probable_conditions''))
            then lit ''\<newline>      <div class="condition">\<newline>        <h3>Flu</h3>\<newline>        <div class="confidence-bar high"><div></div></div>\<newline>        <p><b>Confidence:</b> high</p>\<newline>        <p>Seasonal</p>\<newline>      </div>'' = []
            else conditions env0 noNextSteps
              = Inr (lit ''\<newline>      <div class="condition">\<newline>        <h3>Flu</h3>\<newline>        <div class="confidence-bar high"><div></div></div>\<newline>        <p><b>Confidence:</b> high</p>\<newline>        <p>Seasonal</p>\<newline>      </div>'')\<close>
    using g(1) c1 by simp
  have h2: "if nullish (getPropOpt noNextSteps (lit ''next_steps'')) then ([] :: jsstring) = []
            else nextSteps env0 noNextSteps = Inr []"
    by (simp add: f)
  have h3: "if nullish (getPropOpt noConditions (lit ''probable_conditions'')) then ([] :: jsstring) = []
            else conditions env0 noConditions = Inr []"
    by (simp add: f)
  have h4: "if nullish (getPropOpt noConditions (lit ''next_steps'')) then lit ''<li>Rest</li>'' = []
            else nextSteps env0 noConditions = Inr (lit ''<li>Rest</li>'')"
    using g(2) n2 by simp
  have h5: "if nullish (getPropOpt chestPain (lit ''probable_conditions'')) then ([] :: jsstring) = []
            else conditions env0 chestPain = Inr []"
    by (simp add: f)
  have h6: "if nullish (getPropOpt chestPain (lit ''next_steps'')) then ([] :: jsstring) = []
            else nextSteps env0 chestPain = Inr []"
    by (simp add: f)
  note a = buildResultHTML_null_sequences [OF nn(1) e(1) d(1) example_footer(1) ms
      example_footer(4) example_footer(7) h1 h2]
  note b = buildResultHTML_null_sequences [OF nn(2) e(2) d(2) example_footer(2) ms
      example_footer(5) example_footer(7) h3 h4]
  note c = buildResultHTML_null_sequences [OF nn(3) chestPain_banner d(3) example_footer(3) ms
      example_footer(6) example_footer(7) h5 h6]
  show ?thesis
    using a b c f g by simp
qed

section \<open>The analyze control\<close>

lemma tick_button [simp]:
  "btnDisabled (tick env k p) = btnDisabled p" "analyze (tick env k p) = analyze p"
  by (simp_all add: tick_def Let_def split: option.splits)

lemma typeResult_button:
  assumes "typeResult env data p = Inr p'"
  shows "btnDisabled p' = btnDisabled p" "analyze p' = analyze p"
  using assms unfolding typeResult_Inr by auto

lemma loadResultById_cases:
  "(\<exists>m. loadResultById env queryId r p = p\<lparr>resultEl := m\<rparr>)
   \<or> (\<exists>response. typeResult env response p = Inr (loadResultById env queryId r p))"
proof -
  let ?inner = "bindE r (\<lambda>data.
        bindE (getProp data (lit ''history'')) (\<lambda>history.
        bindE (callFind history
                 (\<lambda>r. bindE (getProp r (lit ''query_id'')) (\<lambda>q. Inr (strictEq q queryId))))
          (\<lambda>record.
             if \<not> truthy record then Inr (p\<lparr>resultEl := noSavedMarkup\<rparr>)
             else
               bindE (getProp record (lit ''model_response'')) (\<lambda>response.
                 if \<not> truthy response then Inr (p\<lparr>resultEl := noSavedMarkup\<rparr>)
                 else typeResult env response p))))"
  show ?thesis
  proof (cases ?inner)
    case (Inl e)
    then have "loadResultById env queryId r p = p\<lparr>resultEl := errorMarkup env e\<rparr>"
      by (simp add: loadResultById_def)
    then show ?thesis by blast
  next
    case (Inr p')
    then have eq: "loadResultById env queryId r p = p'" by (simp add: loadResultById_def)
    from Inr have "p' = p\<lparr>resultEl := noSavedMarkup\<rparr> \<or> (\<exists>response. typeResult env response p = Inr p')"
      by (auto simp add: bindE_eq_Inr split: if_splits)
    then show ?thesis using eq by auto
  qed
qed

lemma loadResultById_button [simp]:
  "btnDisabled (loadResultById env queryId r p) = btnDisabled p"
  "analyze (loadResultById env queryId r p) = analyze p"
  using loadResultById_cases [of env queryId r p] by (auto dest: typeResult_button)

lemma submitJsonSettled_button [simp]:
  "btnDisabled (submitJsonSettled env r p) = False" "analyze (submitJsonSettled env r p) = Idle"
  by (simp_all add: submitJsonSettled_def analyzeFailed_def analyzeFinally_def split: sum.splits)

lemma handle_invariant:
  assumes "btnDisabled p \<longleftrightarrow> analyze p \<noteq> Idle"
  shows "btnDisabled (handle env p ev) \<longleftrightarrow> analyze (handle env p ev) \<noteq> Idle"
proof (cases ev)
  case Submit
  then show ?thesis using assms by (simp add: submitStart_def)
next
  case (FetchSettled r)
  then show ?thesis
    using assms
    by (cases r) (simp_all add: submitFetchSettled_def analyzeFailed_def analyzeFinally_def)
next
  case (JsonSettled r)
  then show ?thesis using assms by simp
next
  case (Tick k)
  then show ?thesis using assms by simp
next
  case (ResultLoaded q r)
  then show ?thesis using assms by simp
qed

lemma run_invariant:
  assumes "btnDisabled p \<longleftrightarrow> analyze p \<noteq> Idle"
  shows "btnDisabled (run env p evs) \<longleftrightarrow> analyze (run env p evs) \<noteq> Idle"
  using assms unfolding run_def
proof (induction evs arbitrary: p)
  case Nil
  then show ?case by simp
next
  case (Cons ev evs)
  show ?case using Cons.IH [OF handle_invariant [OF Cons.prems]] by simp
qed

text \<open>
  Claim C8. On a page that starts with the control enabled and no submission pending,
  after any sequence of events the control is disabled exactly while the submit handler
  is suspended. A submit event in that time changes nothing. The settled \<^verbatim>\<open>fetch\<close>
  leaves it disabled when fulfilled and re-enables it when rejected; the settled
  \<^verbatim>\<open>json()\<close> re-enables it whatever the outcome, also when the reply does not render.
  No firing of an interval and no loaded history entry touches the control.
\<close>

theorem analyze_control_disabled_until_settled:
  assumes "\<not> btnDisabled p0" and "analyze p0 = Idle"
  shows "(btnDisabled (run env p0 evs) \<longleftrightarrow> analyze (run env p0 evs) \<noteq> Idle)
       \<and> (analyze (run env p0 evs) \<noteq> Idle \<longrightarrow>
            handle env (run env p0 evs) Submit = run env p0 evs)
       \<and> (analyze (run env p0 evs) = Idle \<longrightarrow>
            btnDisabled (handle env (run env p0 evs) Submit)
            \<and> analyze (handle env (run env p0 evs) Submit) = AwaitFetch)
       \<and> (analyze (run env p0 evs) = AwaitFetch \<longrightarrow>
            btnDisabled (handle env (run env p0 evs) (FetchSettled (Inr ())))
            \<and> analyze (handle env (run env p0 evs) (FetchSettled (Inr ()))) = AwaitJson
            \<and> (\<forall>e. \<not> btnDisabled (handle env (run env p0 evs) (FetchSettled (Inl e)))
                   \<and> analyze (handle env (run env p0 evs) (FetchSettled (Inl e))) = Idle))
       \<and> (analyze (run env p0 evs) = AwaitJson \<longrightarrow>
            (\<forall>r. \<not> btnDisabled (handle env (run env p0 evs) (JsonSettled r))
                   \<and> analyze (handle env (run env p0 evs) (JsonSettled r)) = Idle))
       \<and> (\<forall>k. btnDisabled (handle env (run env p0 evs) (Tick k))
                = btnDisabled (run env p0 evs))
       \<and> (\<forall>q r. btnDisabled (handle env (run env p0 evs) (ResultLoaded q r))
                = btnDisabled (run env p0 evs))"
proof -
  let ?p = "run env p0 evs"
  have inv: "btnDisabled ?p \<longleftrightarrow> analyze ?p \<noteq> Idle"
    using assms by (intro run_invariant) simp
  show ?thesis
    using inv
    by (simp add: submitStart_def submitFetchSettled_def analyzeFailed_def analyzeFinally_def)
qed

theorem analyze_control_disabled_until_settled_witness:
  "\<not> btnDisabled page0 \<and> analyze page0 = Idle
   \<and> btnDisabled (run env0 page0 [Submit])
   \<and> btnDisabled (run env0 page0 [Submit, Submit, FetchSettled (Inr ())])
   \<and> analyze (run env0 page0 [Submit, Submit, FetchSettled (Inr ())]) = AwaitJson
   \<and> \<not> btnDisabled (run env0 page0 [Submit, FetchSettled (Inr ()), JsonSettled (Inr soreThroat)])
   \<and> \<not> btnDisabled (run env0 page0 [Submit, FetchSettled (Inl NetworkError)])"
proof -
  have a: "\<not> btnDisabled page0" and b: "analyze page0 = Idle" by (simp_all add: page0_def)
  have s1: "analyze (run env0 page0 [Submit]) = AwaitFetch"
    by (simp add: run_def page0_def submitStart_def)
  have s2: "analyze (run env0 page0 [Submit, Submit, FetchSettled (Inr ())]) = AwaitJson"
    by (simp add: run_def page0_def submitStart_def submitFetchSettled_def)
  have s3: "analyze (run env0 page0 [Submit, FetchSettled (Inr ()), JsonSettled (Inr soreThroat)]) = Idle"
    by (simp add: run_def page0_def submitStart_def submitFetchSettled_def)
  have s4: "analyze (run env0 page0 [Submit, FetchSettled (Inl NetworkError)]) = Idle"
    by (simp add: run_def page0_def submitStart_def submitFetchSettled_def analyzeFailed_def
        analyzeFinally_def)
  show ?thesis
    using a b s1 s2 s3 s4
      analyze_control_disabled_until_settled [OF a b, of env0 "[Submit]"]
      analyze_control_disabled_until_settled [OF a b, of env0 "[Submit, Submit, FetchSettled (Inr ())]"]
      analyze_control_disabled_until_settled [OF a b, of env0
        "[Submit, FetchSettled (Inr ()), JsonSettled (Inr soreThroat)]"]
      analyze_control_disabled_until_settled [OF a b, of env0
        "[Submit, FetchSettled (Inl NetworkError)]"]
    by simp
qed

section \<open>Loading a saved result\<close>

lemma findFirst_query:
  assumes "\<forall>r \<in> set records. \<not> nullish r"
  shows "\<exists>x. findFirst (\<lambda>r. bindE (getProp r k) (\<lambda>q. Inr (strictEq q queryId))) records = Inr x
             \<and> (x = Undefined \<or> x \<in> set records \<and> strictEq (getPropOpt x k) queryId)"
  using assms
proof (induction records)
  case Nil
  then show ?case by simp
next
  case (Cons r records)
  then have r: "getProp r k = Inr (getPropOpt r k)" by (simp add: getProp_not_nullish)
  show ?case
  proof (cases "strictEq (getPropOpt r k) queryId")
    case True
    then show ?thesis using r by simp
  next
    case False
    then show ?thesis using r Cons by auto
  qed
qed

text \<open>
  Claim C9. When the history endpoint replies with its list of records and no record of
  the list has both the requested \<^verbatim>\<open>query_id\<close> and a saved response, \<^verbatim>\<open>loadResultById\<close>
  shows the message \<open>No saved response found.\<close> and starts no reveal: the page is
  otherwise unchanged.
\<close>

theorem loadResultById_no_saved_response:
  assumes "getPropOpt data (lit ''history'') = Arr records"
      and "\<forall>r \<in> set records. \<not> nullish r"
      and "\<forall>r \<in> set records. \<not> (strictEq (getPropOpt r (lit ''query_id'')) queryId
                                    \<and> truthy (getPropOpt r (lit ''model_response'')))"
  shows "loadResultById env queryId (Inr data) p = p\<lparr>resultEl := noSavedMarkup\<rparr>
         \<and> resultEl (loadResultById env queryId (Inr data) p) = noSavedMarkup
         \<and> timers (loadResultById env queryId (Inr data) p) = timers p"
proof -
  have hist: "getProp data (lit ''history'') = Inr (Arr records)"
    using assms(1) by (cases data) (simp_all add: getPropOpt_def)
  from findFirst_query [OF assms(2)] obtain x where
    x: "findFirst (\<lambda>r. bindE (getProp r (lit ''query_id'')) (\<lambda>q. Inr (strictEq q queryId)))
          records = Inr x"
      "x = Undefined \<or> x \<in> set records \<and> strictEq (getPropOpt x (lit ''query_id'')) queryId"
    by blast
  have "loadResultById env queryId (Inr data) p = p\<lparr>resultEl := noSavedMarkup\<rparr>"
  proof (cases "truthy x")
    case False
    then show ?thesis by (simp add: loadResultById_def hist x(1))
  next
    case True
    then have mem: "x \<in> set records" "strictEq (getPropOpt x (lit ''query_id'')) queryId"
      using x(2) by auto
    then have "\<not> nullish x" "\<not> truthy (getPropOpt x (lit ''model_response''))"
      using assms(2,3) by auto
    then show ?thesis
      by (simp add: loadResultById_def hist x(1) True getProp_not_nullish)
  qed
  then show ?thesis by simp
qed

theorem loadResultById_no_saved_response_witness:
  "getPropOpt historyReply (lit ''history'') \<noteq> Undefined
   \<and> loadResultById env0 (Str (lit ''q7'')) (Inr historyReply) page0
       = page0\<lparr>resultEl := noSavedMarkup\<rparr>
   \<and> loadResultById env0 (Str (lit ''q2'')) (Inr historyReply) page0
       = page0\<lparr>resultEl := noSavedMarkup\<rparr>"
proof -
  let ?records = "[
     Obj [(lit ''query_id'', Str (lit ''q1'')), (lit ''symptoms'', Str (lit ''sore throat'')),
          (lit ''model_response'', soreThroat)],
     Obj [(lit ''query_id'', Str (lit ''q2'')), (lit ''symptoms'', Str (lit ''cough'')),
          (lit ''model_response'', Null)]]"
  have h: "getPropOpt historyReply (lit ''history'') = Arr ?records"
    by (simp add: historyReply_def getPropOpt_def lit_def)
  have n: "\<forall>r \<in> set ?records. \<not> nullish r" by simp
  have a: "\<forall>r \<in> set ?records. \<not> (strictEq (getPropOpt r (lit ''query_id'')) (Str (lit ''q7''))
                                    \<and> truthy (getPropOpt r (lit ''model_response'')))"
    by (simp add: getPropOpt_def lit_def)
  have b: "\<forall>r \<in> set ?records. \<not> (strictEq (getPropOpt r (lit ''query_id'')) (Str (lit ''q2''))
                                    \<and> truthy (getPropOpt r (lit ''model_response'')))"
    by (simp add: getPropOpt_def lit_def)
  show ?thesis
    using h loadResultById_no_saved_response [OF h n a, of env0 page0]
      loadResultById_no_saved_response [OF h n b, of env0 page0]
    by simp
qed

section \<open>The history preview\<close>

text \<open>
  Claim C5. For every history summary, a symptoms text longer than 50 characters is
  previewed as exactly its first 50 characters followed by the ellipsis marker \<open>...\<close>,
  and a text of 50 characters or fewer is shown verbatim.
\<close>

theorem previewText_truncates:
  "(length symptoms > 50 \<longrightarrow>
      previewText symptoms = take 50 symptoms @ lit ''...''
      \<and> length (previewText symptoms) = 53)
   \<and> (length symptoms \<le> 50 \<longrightarrow> previewText symptoms = symptoms)"
  by (simp add: previewText_def lit_def)

theorem previewText_truncates_witness:
  "length (replicate 51 (0x61 :: 16 word)) > 50
   \<and> previewText (replicate 51 0x61) = replicate 50 0x61 @ lit ''...''
   \<and> length (lit ''sore throat and headache'') \<le> 50
   \<and> previewText (lit ''sore throat and headache'') = lit ''sore throat and headache''"
  using previewText_truncates [of "replicate 51 0x61"]
        previewText_truncates [of "lit ''sore throat and headache''"]
  by (simp add: lit_def)

end
